theory Spec2Isabelle
  imports Complex_Main
begin

section \<open>JavaScript values used by the scoring services\<close>

text \<open>
  Numbers are modelled as \<^typ>\<open>real\<close>: the exact values the IEEE doubles of the
  source stand for. A field that may be absent is an \<^typ>\<open>'a option\<close>; a field that is
  only tested for truthiness is a \<^typ>\<open>bool\<close>. Strings are byte lists and the case
  conversions below act on the ASCII letters, which is all the constants they are
  compared with contain.
\<close>

text \<open>\<^verbatim>\<open>x || d\<close> on a number that may be absent: \<^verbatim>\<open>undefined\<close> and \<^verbatim>\<open>0\<close> are falsy.\<close>

definition or_num :: "real option \<Rightarrow> real \<Rightarrow> real" where
  "or_num v d = (case v of None \<Rightarrow> d | Some x \<Rightarrow> if x = 0 then d else x)"

definition or_int :: "int option \<Rightarrow> int \<Rightarrow> int" where
  "or_int v d = (case v of None \<Rightarrow> d | Some x \<Rightarrow> if x = 0 then d else x)"


definition lower_char :: "char \<Rightarrow> char" where
  "lower_char c =
     (let n = (of_char c :: nat) in if 65 \<le> n \<and> n \<le> 90 then char_of (n + 32) else c)"


definition toLowerCase :: "string \<Rightarrow> string" where
  "toLowerCase s = map lower_char s"

fun startsWith :: "string \<Rightarrow> string \<Rightarrow> bool" where
  "startsWith s [] = True"
| "startsWith [] (c # t) = False"
| "startsWith (a # s) (c # t) = (a = c \<and> startsWith s t)"

text \<open>\<^verbatim>\<open>s.includes(t)\<close>: \<open>t\<close> occurs in \<open>s\<close> as a contiguous run.\<close>

fun str_includes :: "string \<Rightarrow> string \<Rightarrow> bool" where
  "str_includes [] t = (t = [])"
| "str_includes (a # s) t = (startsWith (a # s) t \<or> str_includes s t)"

text \<open>\<^verbatim>\<open>Math.round(x)\<close> rounds half up.\<close>

definition Math_round :: "real \<Rightarrow> real" where
  "Math_round x = real_of_int \<lfloor>x + 1 / 2\<rfloor>"


datatype js_error = ReferenceError string | Error string

datatype risk_level = LOW | MODERATE | HIGH | CRITICAL


section \<open>The API-backed scoring service (four weighted dimensions)\<close>

text \<open>
  The second \<^verbatim>\<open>ScoringService\<close> class of \<^verbatim>\<open>scoringService.js\<close>. A method whose name
  starts with an underscore in the source carries the prefix \<open>priv_\<close> here.
\<close>

record weighting_profile =
  household_composition_weight :: real
  economic_vulnerability_weight :: real
  social_vulnerability_weight :: real
  health_vulnerability_weight :: real

definition DEFAULT_WEIGHTING_PROFILE :: weighting_profile where
  "DEFAULT_WEIGHTING_PROFILE =
     \<lparr>household_composition_weight = 30, economic_vulnerability_weight = 35,
      social_vulnerability_weight = 20, health_vulnerability_weight = 15\<rparr>"



record person_data =
  employment_status :: "string option"
  education_level :: "string option"
  gender :: "string option"
  marital_status :: "string option"
  disability_status :: "string option"
  age :: "real option"








subsection \<open>The weighting profile\<close>

text \<open>
  What a call of the API client gives: a response whose \<^verbatim>\<open>data\<close> is truthy
  (\<open>Some\<close>) or not, or a thrown error with the two fields the service reads.
\<close>

record api_error =
  response_data_error :: "string option"
  message :: string

datatype 'a api_outcome = Resolved "'a option" | Rejected api_error

text \<open>
  The body of the \<^verbatim>\<open>try\<close> block of \<^verbatim>\<open>getWeightingProfile\<close>, on the cache slot of the
  service and the outcome the API call has if it is made; \<open>Inl\<close> is a throw.
\<close>

definition getWeightingProfile_try ::
    "weighting_profile option \<Rightarrow> weighting_profile api_outcome
     \<Rightarrow> (api_error + weighting_profile) \<times> weighting_profile option" where
  "getWeightingProfile_try cachedWeightingProfile api =
     (case cachedWeightingProfile of
        Some cached \<Rightarrow> (Inr cached, cachedWeightingProfile)
      | None \<Rightarrow>
          (case api of
             Rejected err \<Rightarrow> (Inl err, cachedWeightingProfile)
           | Resolved (Some d) \<Rightarrow> (Inr d, Some d)
           | Resolved None \<Rightarrow> (Inr DEFAULT_WEIGHTING_PROFILE, cachedWeightingProfile)))"

definition getWeightingProfile ::
    "weighting_profile option \<Rightarrow> weighting_profile api_outcome
     \<Rightarrow> (api_error + weighting_profile) \<times> weighting_profile option" where
  "getWeightingProfile cachedWeightingProfile api =
     (case getWeightingProfile_try cachedWeightingProfile api of
        (Inl err, c) \<Rightarrow> (Inr DEFAULT_WEIGHTING_PROFILE, c)
      | (Inr p, c) \<Rightarrow> (Inr p, c))"

subsection \<open>Local computation\<close>

record local_score =
  vulnerability_score :: real
  risk_level :: risk_level
  household_composition_score :: real
  economic_vulnerability_score :: real
  social_vulnerability_score :: real
  health_vulnerability_score :: real
  recommendations :: "string list"
  calculated_offline :: bool




subsection \<open>Remote computation with the cached assessment as fallback\<close>











section \<open>The on-device scoring service (five weighted dimensions)\<close>

text \<open>
  The first \<^verbatim>\<open>ScoringService\<close> class. Counts (\<^verbatim>\<open>householdSize\<close>, \<^verbatim>\<open>dependents\<close>,
  \<^verbatim>\<open>numberOfRooms\<close>, \<^verbatim>\<open>childrenOutOfSchool\<close>, \<^verbatim>\<open>healthCenterDistance\<close>) are integers,
  on which \<^verbatim>\<open>parseInt\<close> is the identity; the income is a number, on which
  \<^verbatim>\<open>parseFloat\<close> is the identity. \<^verbatim>\<open>hasElectricity\<close> and \<^verbatim>\<open>hasRunningWater\<close> are
  compared with the string \<^verbatim>\<open>'no'\<close> as well as tested for truthiness, so they keep
  their JavaScript shape. The household's \<^verbatim>\<open>hasChronicIllness\<close> and \<^verbatim>\<open>hasDisability\<close>
  carry the suffix \<open>_h\<close>, the person's have the plain names.
\<close>

datatype js_flag = Absent | Flag bool | Text string

fun truthy :: "js_flag \<Rightarrow> bool" where
  "truthy Absent = False"
| "truthy (Flag b) = b"
| "truthy (Text s) = (s \<noteq> [])"

record calendar_date =
  fullYear :: int
  month :: int
  day_of_month :: int

datatype birth_date = Invalid_Date | Valid_Date calendar_date

record person =
  occupationStatus :: "string option"
  educationLevel :: "string option"
  isIlliterate :: bool
  hasChronicIllness :: bool
  hasDisability :: bool
  birthDate :: "birth_date option"

record household =
  monthlyIncome :: "real option"
  householdSize :: "int option"
  dependents :: "int option"
  hasSavings :: bool
  housingType :: "string option"
  hasElectricity :: js_flag
  hasRunningWater :: js_flag
  numberOfRooms :: "int option"
  hasToilet :: bool
  hasChronicIllness_h :: bool
  hasDisability_h :: bool
  hasHealthInsurance :: bool
  hasMalnutrition :: bool
  healthCenterDistance :: "int option"
  childrenOutOfSchool :: "int option"
  hasUnpaidSchoolFees :: bool
  isSociallyIsolated :: bool
  isSingleParent :: bool
  hasFamilySupport :: bool

record dimension_scores =
  economic :: real
  housing :: real
  health :: real
  education :: real
  social :: real

definition WEIGHTS :: dimension_scores where
  "WEIGHTS = \<lparr>economic = 0.30, housing = 0.25, health = 0.20, education = 0.15, social = 0.10\<rparr>"

fun THRESHOLDS :: "risk_level \<Rightarrow> real" where
  "THRESHOLDS CRITICAL = 75"
| "THRESHOLDS HIGH = 50"
| "THRESHOLDS MODERATE = 25"
| "THRESHOLDS LOW = 0"

text \<open>\<^verbatim>\<open>s?.toLowerCase() || ''\<close>\<close>

definition lower_or_empty :: "string option \<Rightarrow> string" where
  "lower_or_empty s = (case s of None \<Rightarrow> [] | Some t \<Rightarrow> toLowerCase t)"

definition calculateEconomicScore :: "person \<Rightarrow> household \<Rightarrow> real" where
  "calculateEconomicScore p h =
     (let income = or_num (monthlyIncome h) 0;
          hSize = or_int (householdSize h) 1;
          incomePerPerson = income / real_of_int hSize;
          POVERTY_LINE = 150000;
          VULNERABILITY_LINE = 300000;
          score = (if incomePerPerson = 0 then 40
                   else if incomePerPerson < POVERTY_LINE then 35
                   else if incomePerPerson < VULNERABILITY_LINE then 25
                   else 10);
          occupation = lower_or_empty (occupationStatus p);
          score = (if str_includes occupation ''chomeur'' \<or> str_includes occupation ''unemployed''
                   then score + 25
                   else if str_includes occupation ''informel'' \<or> str_includes occupation ''informal''
                   then score + 15
                   else if str_includes occupation ''journalier'' \<or> str_includes occupation ''daily''
                   then score + 20
                   else score + 5);
          deps = or_int (dependents h) 0;
          score = (if deps \<ge> 5 then score + 20
                   else if deps \<ge> 3 then score + 15
                   else if deps \<ge> 1 then score + 10
                   else score);
          score = (if \<not> hasSavings h then score + 15 else score)
      in min 100 score)"

definition calculateHousingScore :: "household \<Rightarrow> real" where
  "calculateHousingScore h =
     (let hType = lower_or_empty (housingType h);
          score = (if str_includes hType ''precaire'' \<or> str_includes hType ''precarious'' then 30
                   else if str_includes hType ''case'' \<or> str_includes hType ''traditional'' then 20
                   else if str_includes hType ''location'' \<or> str_includes hType ''rent'' then 15
                   else 5);
          score = (if \<not> truthy (hasElectricity h) \<or> hasElectricity h = Text ''no''
                   then score + 20 else score);
          score = (if \<not> truthy (hasRunningWater h) \<or> hasRunningWater h = Text ''no''
                   then score + 20 else score);
          hSize = or_int (householdSize h) 1;
          rooms = or_int (numberOfRooms h) 1;
          personsPerRoom = real_of_int hSize / real_of_int rooms;
          score = (if personsPerRoom \<ge> 4 then score + 15
                   else if personsPerRoom \<ge> 3 then score + 10
                   else if personsPerRoom \<ge> 2 then score + 5
                   else score);
          score = (if \<not> hasToilet h then score + 15 else score)
      in min 100 score)"

definition calculateHealthScore :: "person \<Rightarrow> household \<Rightarrow> real" where
  "calculateHealthScore p h =
     (let score = (if hasChronicIllness p \<or> hasChronicIllness_h h then 25 else 0);
          score = (if hasDisability p \<or> hasDisability_h h then score + 20 else score);
          score = (if \<not> hasHealthInsurance h then score + 20 else score);
          score = (if hasMalnutrition h then score + 20 else score);
          healthDistance = or_int (healthCenterDistance h) 0;
          score = (if healthDistance \<ge> 10 then score + 15
                   else if healthDistance \<ge> 5 then score + 10
                   else score)
      in min 100 score)"

definition calculateEducationScore :: "person \<Rightarrow> household \<Rightarrow> real" where
  "calculateEducationScore p h =
     (let edu = lower_or_empty (educationLevel p);
          score = (if str_includes edu ''aucun'' \<or> str_includes edu ''none'' then 30
                   else if str_includes edu ''primaire'' \<or> str_includes edu ''primary'' then 20
                   else if str_includes edu ''secondaire'' \<or> str_includes edu ''secondary'' then 10
                   else 0);
          score = (if isIlliterate p then score + 25 else score);
          children = or_int (childrenOutOfSchool h) 0;
          score = (if children \<ge> 2 then score + 25
                   else if children = 1 then score + 15
                   else score);
          score = (if hasUnpaidSchoolFees h then score + 20 else score)
      in min 100 score)"

text \<open>
  \<^verbatim>\<open>calculateAge\<close> reads the clock: \<open>today\<close> is the local calendar date of
  \<^verbatim>\<open>new Date()\<close>. A birth date that does not parse gives \<^verbatim>\<open>NaN\<close>, here \<open>None\<close>.
\<close>

definition calculateAge :: "calendar_date \<Rightarrow> birth_date option \<Rightarrow> int option" where
  "calculateAge today b =
     (case b of
        None \<Rightarrow> Some 0
      | Some Invalid_Date \<Rightarrow> None
      | Some (Valid_Date birth) \<Rightarrow>
          (let age = fullYear today - fullYear birth;
               monthDiff = month today - month birth
           in if monthDiff < 0 \<or> (monthDiff = 0 \<and> day_of_month today < day_of_month birth)
              then Some (age - 1) else Some age))"

text \<open>
  \<^verbatim>\<open>calculateSocialScore\<close> tests \<^verbatim>\<open>age >= 65 && householdSize === 1\<close>, and no
  \<^verbatim>\<open>householdSize\<close> is in scope there: when the left operand is true, reading the name
  throws a \<^verbatim>\<open>ReferenceError\<close>. With \<^verbatim>\<open>NaN\<close> the left operand is false.
\<close>

definition calculateSocialScore :: "calendar_date \<Rightarrow> person \<Rightarrow> household \<Rightarrow> js_error + real" where
  "calculateSocialScore today p h =
     (let score = (if isSociallyIsolated h then 30 else 0);
          score = (if isSingleParent h then score + 25 else score);
          age = calculateAge today (birthDate p)
      in if (case age of None \<Rightarrow> False | Some a \<Rightarrow> a \<ge> 65)
         then Inl (ReferenceError ''householdSize is not defined'')
         else (let score = (if \<not> hasFamilySupport h then score + 20 else score)
               in Inr (min 100 score)))"

definition calculateDimensionScores ::
    "calendar_date \<Rightarrow> person \<Rightarrow> household \<Rightarrow> js_error + dimension_scores" where
  "calculateDimensionScores today personData householdData =
     (let e = calculateEconomicScore personData householdData;
          ho = calculateHousingScore householdData;
          he = calculateHealthScore personData householdData;
          ed = calculateEducationScore personData householdData
      in case calculateSocialScore today personData householdData of
           Inl err \<Rightarrow> Inl err
         | Inr so \<Rightarrow> Inr \<lparr>economic = e, housing = ho, health = he, education = ed, social = so\<rparr>)"

definition calculateWeightedScore :: "dimension_scores \<Rightarrow> real" where
  "calculateWeightedScore dimensionScores =
     economic dimensionScores * economic WEIGHTS
     + housing dimensionScores * housing WEIGHTS
     + health dimensionScores * health WEIGHTS
     + education dimensionScores * education WEIGHTS
     + social dimensionScores * social WEIGHTS"

definition determineRiskLevel :: "real \<Rightarrow> risk_level" where
  "determineRiskLevel score =
     (if score \<ge> THRESHOLDS CRITICAL then CRITICAL
      else if score \<ge> THRESHOLDS HIGH then HIGH
      else if score \<ge> THRESHOLDS MODERATE then MODERATE
      else LOW)"

definition opt_includes :: "string option \<Rightarrow> string \<Rightarrow> bool" where
  "opt_includes s t = (case s of None \<Rightarrow> False | Some u \<Rightarrow> str_includes u t)"

definition identifyRiskFactors :: "person \<Rightarrow> household \<Rightarrow> string list" where
  "identifyRiskFactors p h =
     (if or_num (monthlyIncome h) 0 < 150000 then [''extreme_poverty''] else [])
     @ (if opt_includes (occupationStatus p) ''chomeur'' then [''unemployment''] else [])
     @ (if or_int (dependents h) 0 \<ge> 3 then [''multiple_dependents''] else [])
     @ (if \<not> truthy (hasElectricity h) then [''no_electricity''] else [])
     @ (if \<not> truthy (hasRunningWater h) then [''no_water''] else [])
     @ (if opt_includes (housingType h) ''precaire'' then [''precarious_housing''] else [])
     @ (if hasChronicIllness p then [''chronic_illness''] else [])
     @ (if hasDisability p then [''disability''] else [])
     @ (if \<not> hasHealthInsurance h then [''no_health_insurance''] else [])
     @ (if opt_includes (educationLevel p) ''aucun'' then [''no_education''] else [])
     @ (if or_int (childrenOutOfSchool h) 0 > 0 then [''children_out_of_school''] else [])
     @ (if isSingleParent h then [''single_parent''] else [])
     @ (if isSociallyIsolated h then [''social_isolation''] else [])"

text \<open>The recommendation texts are French sentences; accented letters are written without accent.\<close>

fun level_recommendations :: "risk_level \<Rightarrow> string list" where
  "level_recommendations CRITICAL =
     [''Priorite 1: Assistance immediate requise'',
      ''Inscription urgente aux programmes sociaux'',
      ''Suivi rapproche mensuel'']"
| "level_recommendations HIGH =
     [''Priorite 2: Intervention necessaire'',
      ''Evaluation approfondie des besoins'',
      ''Orientation vers programmes adaptes'']"
| "level_recommendations MODERATE =
     [''Priorite 3: Surveillance reguliere'',
      ''Acces aux services de prevention'']"
| "level_recommendations LOW = [''Suivi standard'']"

definition generateRecommendations :: "risk_level \<Rightarrow> string list \<Rightarrow> string list" where
  "generateRecommendations riskLevel fs =
     level_recommendations riskLevel
     @ (if ''unemployment'' \<in> set fs then [''Programme insertion professionnelle''] else [])
     @ (if ''no_education'' \<in> set fs then [''Programme alphabetisation''] else [])
     @ (if ''children_out_of_school'' \<in> set fs then [''Aide a la scolarisation''] else [])
     @ (if ''chronic_illness'' \<in> set fs then [''Couverture sante prioritaire''] else [])"

record assessment_result =
  score :: real
  level :: risk_level
  dimensions :: dimension_scores
  factors :: "string list"
  recommendations5 :: "string list"
  calculatedAt :: string

text \<open>
  The synchronous \<^verbatim>\<open>calculateVulnerabilityScore(personData, householdData)\<close> of the
  on-device service. It reads the clock twice: \<open>today\<close> in \<^verbatim>\<open>calculateAge\<close> and
  \<open>stamp\<close>, the ISO text of \<^verbatim>\<open>new Date()\<close>, for \<^verbatim>\<open>calculatedAt\<close>. Whatever the
  \<^verbatim>\<open>try\<close> block throws is replaced by one fixed \<^verbatim>\<open>Error\<close>.
\<close>

definition calculateVulnerabilityScore ::
    "calendar_date \<Rightarrow> string \<Rightarrow> person \<Rightarrow> household \<Rightarrow> js_error + assessment_result" where
  "calculateVulnerabilityScore today stamp personData householdData =
     (case calculateDimensionScores today personData householdData of
        Inl err \<Rightarrow> Inl (Error ''Impossible de calculer le score de vulnerabilite'')
      | Inr dimensionScores \<Rightarrow>
          (let globalScore = calculateWeightedScore dimensionScores;
               riskLevel = determineRiskLevel globalScore;
               riskFactors = identifyRiskFactors personData householdData;
               recs = generateRecommendations riskLevel riskFactors
           in Inr \<lparr>score = Math_round globalScore,
                   level = riskLevel,
                   dimensions = dimensionScores,
                   factors = riskFactors,
                   recommendations5 = recs,
                   calculatedAt = stamp\<rparr>))"

section \<open>The offline hook\<close>

text \<open>
  \<^verbatim>\<open>useOffline\<close> keeps its flags in component state. JavaScript runs one task at a
  time, so the hook is a transition system: each event below is one task, and an
  \<^verbatim>\<open>await\<close> ends a task. Three fields are not variables of the source: \<open>in_flight\<close>
  counts the calls of \<^verbatim>\<open>syncService.processQueue()\<close> that have started and not yet
  settled, \<open>reloading\<close> counts the runs of \<^verbatim>\<open>syncQueue\<close> that wait for their
  \<^verbatim>\<open>loadPendingCount()\<close>, and \<open>started\<close> counts all calls of \<^verbatim>\<open>processQueue\<close> made.
  \<^verbatim>\<open>connectionType\<close> and \<^verbatim>\<open>lastSyncTime\<close>, which nothing reads, are left out.
\<close>

record hook_state =
  isConnected :: bool
  isInternetReachable :: bool
  pendingCount :: nat
  syncing :: bool
  in_flight :: nat
  reloading :: nat
  started :: nat

text \<open>The initial values of the \<^verbatim>\<open>useState\<close> calls.\<close>

definition initial_hook :: hook_state where
  "initial_hook =
     \<lparr>isConnected = True, isInternetReachable = True, pendingCount = 0, syncing = False,
      in_flight = 0, reloading = 0, started = 0\<rparr>"

text \<open>
  The tasks: the listener \<^verbatim>\<open>handleConnectionChange\<close> (its second argument is
  \<^verbatim>\<open>state.isInternetReachable !== false\<close>); a \<^verbatim>\<open>loadPendingCount\<close> of the mount, the
  timer or \<^verbatim>\<open>addToQueue\<close> that has read a count; a run of the second \<^verbatim>\<open>useEffect\<close>; a
  call of the \<^verbatim>\<open>syncQueue\<close> that the hook returns; a call of \<^verbatim>\<open>processQueue\<close> that
  returns or throws; and the \<^verbatim>\<open>loadPendingCount\<close> inside \<^verbatim>\<open>syncQueue\<close> coming back, with
  the count read or, when reading failed, without.
\<close>

datatype hook_event =
    ConnectionChange bool bool
  | PendingCountLoaded nat
  | AutoSyncEffect
  | SyncQueueCalled
  | ProcessQueueResolved
  | ProcessQueueRejected
  | SyncQueueReloaded "nat option"

text \<open>
  \<^verbatim>\<open>syncQueue\<close> up to its first \<^verbatim>\<open>await\<close>: the connectivity test, then
  \<^verbatim>\<open>setSyncing(true)\<close> and the call of \<^verbatim>\<open>processQueue\<close>. It does not read \<^verbatim>\<open>syncing\<close>.
\<close>

definition syncQueue_start :: "hook_state \<Rightarrow> hook_state" where
  "syncQueue_start s =
     (if \<not> isConnected s \<or> \<not> isInternetReachable s then s
      else s\<lparr>syncing := True, in_flight := in_flight s + 1, started := started s + 1\<rparr>)"

text \<open>
  \<^verbatim>\<open>syncQueue\<close> when \<^verbatim>\<open>processQueue\<close> has returned: \<^verbatim>\<open>setLastSyncTime\<close>, then it waits
  for \<^verbatim>\<open>loadPendingCount()\<close>.
\<close>

definition syncQueue_resolved :: "hook_state \<Rightarrow> hook_state" where
  "syncQueue_resolved s =
     (if in_flight s = 0 then s
      else s\<lparr>in_flight := in_flight s - 1, reloading := reloading s + 1\<rparr>)"

text \<open>
  \<^verbatim>\<open>syncQueue\<close> when \<^verbatim>\<open>processQueue\<close> has thrown: the \<^verbatim>\<open>catch\<close> block, then the
  \<^verbatim>\<open>finally\<close> block with \<^verbatim>\<open>setSyncing(false)\<close>.
\<close>

definition syncQueue_rejected :: "hook_state \<Rightarrow> hook_state" where
  "syncQueue_rejected s =
     (if in_flight s = 0 then s else s\<lparr>in_flight := in_flight s - 1, syncing := False\<rparr>)"

text \<open>
  \<^verbatim>\<open>syncQueue\<close> when its \<^verbatim>\<open>loadPendingCount()\<close> is back: \<^verbatim>\<open>setPendingCount\<close> if a count
  was read, then the \<^verbatim>\<open>finally\<close> block with \<^verbatim>\<open>setSyncing(false)\<close>.
\<close>

definition syncQueue_reloaded :: "nat option \<Rightarrow> hook_state \<Rightarrow> hook_state" where
  "syncQueue_reloaded n s =
     (if reloading s = 0 then s
      else s\<lparr>pendingCount := (case n of None \<Rightarrow> pendingCount s | Some k \<Rightarrow> k),
             reloading := reloading s - 1, syncing := False\<rparr>)"

text \<open>The body of the second \<^verbatim>\<open>useEffect\<close>; \<open>autoSync\<close> is the option of the hook.\<close>

definition autoSyncEffect :: "bool \<Rightarrow> hook_state \<Rightarrow> hook_state" where
  "autoSyncEffect autoSync s =
     (if isConnected s \<and> isInternetReachable s \<and> autoSync \<and> pendingCount s > 0 \<and> \<not> syncing s
      then syncQueue_start s else s)"

fun hook_step :: "bool \<Rightarrow> hook_state \<Rightarrow> hook_event \<Rightarrow> hook_state" where
  "hook_step autoSync s (ConnectionChange c r) = s\<lparr>isConnected := c, isInternetReachable := r\<rparr>"
| "hook_step autoSync s (PendingCountLoaded n) = s\<lparr>pendingCount := n\<rparr>"
| "hook_step autoSync s AutoSyncEffect = autoSyncEffect autoSync s"
| "hook_step autoSync s SyncQueueCalled = syncQueue_start s"
| "hook_step autoSync s ProcessQueueResolved = syncQueue_resolved s"
| "hook_step autoSync s ProcessQueueRejected = syncQueue_rejected s"
| "hook_step autoSync s (SyncQueueReloaded n) = syncQueue_reloaded n s"

definition hook_run :: "bool \<Rightarrow> hook_state \<Rightarrow> hook_event list \<Rightarrow> hook_state" where
  "hook_run autoSync s evs = foldl (hook_step autoSync) s evs"

section \<open>The synchronization queue\<close>

text \<open>Modelled from the spec: the kinds of queue item (QueueItem, field \<^verbatim>\<open>type\<close>). The
  queue manager \<^verbatim>\<open>services/sync/syncService.js\<close> is imported by the hook and the screens
  but is not among the sources.\<close>

datatype item_type =
  CREATE_PERSON | UPDATE_PERSON | CREATE_HOUSEHOLD | SUBMIT_SURVEY | UPLOAD_DOCUMENT

text \<open>Modelled from the spec: the status of a queue item (QueueItem, field \<^verbatim>\<open>status\<close>;
  syncService.js is missing).\<close>

datatype item_status = PENDING | IN_FLIGHT | FAILED | SYNCED

text \<open>Modelled from the spec: the queue item (QueueItem; syncService.js is missing). The
  fields \<^verbatim>\<open>id\<close> and \<^verbatim>\<open>type\<close> carry the prefix \<open>item_\<close>; the payload is opaque.\<close>

record queue_item =
  item_id :: nat
  item_type :: item_type
  payload :: string
  createdAt :: nat
  attempts :: nat
  status :: item_status

text \<open>Modelled from the spec: the summary a drain returns, the counts of synced, failed
  and total (syncService.js is missing).\<close>

record drain_summary =
  synced :: nat
  failed :: nat
  total :: nat

text \<open>Modelled from the spec: the items a drain takes up are those \<^verbatim>\<open>pendingCount()\<close>
  counts, with status PENDING or FAILED (syncService.js is missing).\<close>

definition eligible :: "queue_item \<Rightarrow> bool" where
  "eligible i = (status i = PENDING \<or> status i = FAILED)"

text \<open>Modelled from the spec: \<^verbatim>\<open>pendingCount()\<close> of the missing syncService.js, the number
  of items with status PENDING or FAILED.\<close>

definition pendingCount_of :: "queue_item list \<Rightarrow> nat" where
  "pendingCount_of q = length (filter eligible q)"

text \<open>Modelled from the spec: what a drain does with a failed item (syncService.js is
  missing): it increments \<^verbatim>\<open>attempts\<close> and sets the status FAILED.\<close>

definition mark_failed :: "queue_item \<Rightarrow> queue_item" where
  "mark_failed i = i\<lparr>attempts := attempts i + 1, status := FAILED\<rparr>"

text \<open>Modelled from the spec: the remote call of a drain for one item (syncService.js is
  missing); the item is in flight while the call is made. \<open>remote\<close> is the backend:
  it tells for the item it is sent whether the call succeeds.\<close>

definition call_succeeds :: "(queue_item \<Rightarrow> bool) \<Rightarrow> queue_item \<Rightarrow> bool" where
  "call_succeeds remote i = remote (i\<lparr>status := IN_FLIGHT\<rparr>)"

text \<open>Modelled from the spec: the loop of \<^verbatim>\<open>drain()\<close> over the items in order
  (syncService.js is missing). An eligible item goes in flight and the call is made; on
  success the item is removed, on failure it is kept, marked, and the loop goes on to the
  next item. The summary counts the successes, the failures and the items taken up.\<close>

fun drain_items :: "(queue_item \<Rightarrow> bool) \<Rightarrow> queue_item list \<Rightarrow> queue_item list \<times> drain_summary" where
  "drain_items remote [] = ([], \<lparr>synced = 0, failed = 0, total = 0\<rparr>)"
| "drain_items remote (i # rest) =
     (let (kept, s) = drain_items remote rest
      in if \<not> eligible i then (i # kept, s)
         else if call_succeeds remote i
         then (kept, s\<lparr>synced := synced s + 1, total := total s + 1\<rparr>)
         else (mark_failed i # kept, s\<lparr>failed := failed s + 1, total := total s + 1\<rparr>))"

text \<open>Modelled from the spec: \<^verbatim>\<open>drain()\<close> of the missing syncService.js takes the items in
  ascending \<^verbatim>\<open>createdAt\<close> order (first in, first out).\<close>

definition drain :: "(queue_item \<Rightarrow> bool) \<Rightarrow> queue_item list \<Rightarrow> queue_item list \<times> drain_summary" where
  "drain remote q = drain_items remote (sort_key createdAt q)"

section \<open>Concrete inputs\<close>


text \<open>A household of one with a high income and every service, and persons of several ages.\<close>

definition household_one :: household where
  "household_one =
     \<lparr>monthlyIncome = Some 2000000, householdSize = Some 1, dependents = None,
      hasSavings = True, housingType = None, hasElectricity = Flag True,
      hasRunningWater = Flag True, numberOfRooms = Some 1, hasToilet = True,
      hasChronicIllness_h = False, hasDisability_h = False, hasHealthInsurance = True,
      hasMalnutrition = False, healthCenterDistance = None, childrenOutOfSchool = None,
      hasUnpaidSchoolFees = False, isSociallyIsolated = False, isSingleParent = False,
      hasFamilySupport = True\<rparr>"

definition person_born :: "int \<Rightarrow> int \<Rightarrow> int \<Rightarrow> person" where
  "person_born y m d =
     \<lparr>occupationStatus = None, educationLevel = None, isIlliterate = False,
      hasChronicIllness = False, hasDisability = False,
      birthDate = Some (Valid_Date \<lparr>fullYear = y, month = m, day_of_month = d\<rparr>)\<rparr>"

definition day :: "int \<Rightarrow> int \<Rightarrow> int \<Rightarrow> calendar_date" where
  "day y m d = \<lparr>fullYear = y, month = m, day_of_month = d\<rparr>"



definition uneven_profile :: weighting_profile where
  "uneven_profile =
     \<lparr>household_composition_weight = 79.996, economic_vulnerability_weight = 20.004,
      social_vulnerability_weight = 0, health_vulnerability_weight = 0\<rparr>"






text \<open>Items of the queue, created at a given time.\<close>

definition queue_item_at :: "nat \<Rightarrow> item_type \<Rightarrow> queue_item" where
  "queue_item_at t ty =
     \<lparr>item_id = t, item_type = ty, payload = [], createdAt = t, attempts = 0, status = PENDING\<rparr>"

section \<open>Evaluation and rounding facts\<close>

lemmas eval_five =
  calculateVulnerabilityScore_def calculateDimensionScores_def day_def person_born_def
  household_one_def calculateEconomicScore_def calculateHousingScore_def calculateHealthScore_def
  calculateEducationScore_def calculateSocialScore_def calculateAge_def calculateWeightedScore_def
  WEIGHTS_def determineRiskLevel_def identifyRiskFactors_def generateRecommendations_def
  Math_round_def or_num_def or_int_def lower_or_empty_def opt_includes_def Let_def









section \<open>Bounds of the dimension scores\<close>













section \<open>The weighted global score\<close>







section \<open>Risk classification\<close>



section \<open>Where rounding happens\<close>




section \<open>Repeating the local computation\<close>




section \<open>The range of the dimension functions\<close>

text \<open>
  C7 (failing input). Every dimension function is meant to return a value between 0 and
  100, and all do when they return (section on the bounds above), but
  \<^verbatim>\<open>calculateSocialScore\<close> returns nothing for a person of 65 or more: for a person born
  on 20 May 1956, on 3 November 2026, the age is 70 and the call throws.
\<close>

theorem social_score_failing_input:
  "calculateAge (day 2026 10 3) (birthDate (person_born 1956 4 20)) = Some 70
   \<and> calculateSocialScore (day 2026 10 3) (person_born 1956 4 20) household_one
       = Inl (ReferenceError ''householdSize is not defined'')"
  by (simp add: eval_five)

section \<open>The weighting profile never fails\<close>

text \<open>
  C8. \<^verbatim>\<open>getWeightingProfile\<close> returns a profile for every state of the cache slot and
  every outcome of the fetch: the cached profile if there is one; otherwise the fetched
  profile, which it caches; otherwise (a response without data, or a thrown error) the
  default profile, and the cache slot stays empty.
\<close>

theorem getWeightingProfile_never_fails:
  "getWeightingProfile cached api
     = (case cached of
          Some p \<Rightarrow> (Inr p, cached)
        | None \<Rightarrow> (case api of
                     Resolved (Some d) \<Rightarrow> (Inr d, Some d)
                   | Resolved None \<Rightarrow> (Inr DEFAULT_WEIGHTING_PROFILE, None)
                   | Rejected err \<Rightarrow> (Inr DEFAULT_WEIGHTING_PROFILE, None)))
   \<and> (\<exists>p. fst (getWeightingProfile cached api) = Inr p)"
  by (simp add: getWeightingProfile_def getWeightingProfile_try_def
        split: option.splits api_outcome.splits)

text \<open>The three outcomes of the fetch on an empty cache slot, and a filled slot.\<close>

theorem getWeightingProfile_never_fails_witness:
  "getWeightingProfile None (Rejected \<lparr>response_data_error = None, message = ''timeout''\<rparr>)
     = (Inr DEFAULT_WEIGHTING_PROFILE, None)
   \<and> getWeightingProfile None (Resolved None) = (Inr DEFAULT_WEIGHTING_PROFILE, None)
   \<and> getWeightingProfile None (Resolved (Some uneven_profile))
     = (Inr uneven_profile, Some uneven_profile)
   \<and> getWeightingProfile (Some uneven_profile) (Resolved (Some DEFAULT_WEIGHTING_PROFILE))
     = (Inr uneven_profile, Some uneven_profile)"
  using getWeightingProfile_never_fails
          [of None "Rejected \<lparr>response_data_error = None, message = ''timeout''\<rparr>"]
        getWeightingProfile_never_fails [of None "Resolved None"]
        getWeightingProfile_never_fails [of None "Resolved (Some uneven_profile)"]
        getWeightingProfile_never_fails
          [of "Some uneven_profile" "Resolved (Some DEFAULT_WEIGHTING_PROFILE)"]
  by simp

section \<open>Remote failure and the cached assessment\<close>



section \<open>The undefined name in the social score\<close>

text \<open>
  C10. In the five-dimension service, whenever the age computed from the birth date is
  65 or more, \<^verbatim>\<open>calculateSocialScore\<close> reads the undefined name \<^verbatim>\<open>householdSize\<close> and
  throws, and \<^verbatim>\<open>calculateVulnerabilityScore\<close> throws its error, for every household and
  every other field of the person. Whenever the computed age is not 65 or more,
  \<^verbatim>\<open>calculateSocialScore\<close> returns a value.
\<close>

theorem social_score_throws_from_65:
  "(\<forall>today stamp p h a.
      calculateAge today (birthDate p) = Some a \<and> 65 \<le> a
      \<longrightarrow> calculateSocialScore today p h = Inl (ReferenceError ''householdSize is not defined'')
          \<and> calculateVulnerabilityScore today stamp p h
              = Inl (Error ''Impossible de calculer le score de vulnerabilite''))
   \<and> (\<forall>today p h.
      (\<forall>a. calculateAge today (birthDate p) = Some a \<longrightarrow> a < 65)
      \<longrightarrow> (\<exists>v. calculateSocialScore today p h = Inr v))"
  by (auto simp: calculateSocialScore_def calculateVulnerabilityScore_def
        calculateDimensionScores_def Let_def split: option.splits)

text \<open>The theorem for a person born on 1 January 1950, on 3 November 2026, and for one born in 1990.\<close>

theorem social_score_throws_from_65_witness:
  "calculateAge (day 2026 10 3) (birthDate (person_born 1950 0 1)) = Some 76
   \<and> (65 :: int) \<le> 76
   \<and> calculateSocialScore (day 2026 10 3) (person_born 1950 0 1) household_one
        = Inl (ReferenceError ''householdSize is not defined'')
   \<and> calculateVulnerabilityScore (day 2026 10 3) ''2026-11-03T09:00:00.000Z''
        (person_born 1950 0 1) household_one
        = Inl (Error ''Impossible de calculer le score de vulnerabilite'')
   \<and> calculateAge (day 2026 10 3) (birthDate (person_born 1990 0 1)) = Some 36
   \<and> calculateSocialScore (day 2026 10 3) (person_born 1990 0 1) household_one = Inr 0"
proof -
  have age: "calculateAge (day 2026 10 3) (birthDate (person_born 1950 0 1)) = Some 76"
    by (simp add: calculateAge_def person_born_def day_def)
  have le: "(65 :: int) \<le> 76" by simp
  from social_score_throws_from_65 age le
  have old: "calculateSocialScore (day 2026 10 3) (person_born 1950 0 1) household_one
        = Inl (ReferenceError ''householdSize is not defined'')
   \<and> calculateVulnerabilityScore (day 2026 10 3) ''2026-11-03T09:00:00.000Z''
        (person_born 1950 0 1) household_one
        = Inl (Error ''Impossible de calculer le score de vulnerabilite'')"
    by blast
  have age2: "calculateAge (day 2026 10 3) (birthDate (person_born 1990 0 1)) = Some 36"
    by (simp add: calculateAge_def person_born_def day_def)
  then have below: "\<forall>a. calculateAge (day 2026 10 3) (birthDate (person_born 1990 0 1)) = Some a
      \<longrightarrow> a < 65"
    by simp
  from social_score_throws_from_65 below
  have "\<exists>v. calculateSocialScore (day 2026 10 3) (person_born 1990 0 1) household_one = Inr v"
    by blast
  then have young: "calculateSocialScore (day 2026 10 3) (person_born 1990 0 1) household_one = Inr 0"
    by (auto simp: eval_five)
  from age le old age2 young show ?thesis by blast
qed

section \<open>Draining the queue\<close>

lemma drain_items_result:
  "drain_items remote q =
     (map (\<lambda>i. if eligible i then mark_failed i else i)
        (filter (\<lambda>i. \<not> (eligible i \<and> call_succeeds remote i)) q),
      \<lparr>synced = length (filter (\<lambda>i. eligible i \<and> call_succeeds remote i) q),
       failed = length (filter (\<lambda>i. eligible i \<and> \<not> call_succeeds remote i) q),
       total = length (filter eligible q)\<rparr>)"
  by (induction q) (simp_all add: Let_def)

lemma length_filter_sort_key: "length (filter P (sort_key f q)) = length (filter P q)"
  by (simp add: filter_sort)

lemma eligible_mark_failed: "eligible (mark_failed i)"
  by (simp add: eligible_def mark_failed_def)

lemma pending_after_drain_items:
  "length (filter eligible (map (\<lambda>i. if eligible i then mark_failed i else i)
        (filter (\<lambda>i. \<not> (eligible i \<and> call_succeeds remote i)) q)))
   = length (filter (\<lambda>i. eligible i \<and> \<not> call_succeeds remote i) q)"
  by (induction q) (auto simp: eligible_mark_failed)

lemma length_filter_split:
  "length (filter P q)
   = length (filter (\<lambda>i. P i \<and> Q i) q) + length (filter (\<lambda>i. P i \<and> \<not> Q i) q)"
  by (induction q) auto

text \<open>
  C5. For every queue and every outcome of the remote calls, \<^verbatim>\<open>drain()\<close> returns a
  summary. Taking the items in \<^verbatim>\<open>createdAt\<close> order, it removes each eligible item whose
  call succeeds, keeps each eligible item whose call fails with \<^verbatim>\<open>attempts\<close> one higher
  and status FAILED, goes on after a failure, and leaves the other items as they are.
  \<^verbatim>\<open>synced\<close>, \<^verbatim>\<open>failed\<close> and \<^verbatim>\<open>total\<close> count the items that succeeded, that failed and
  that were taken up; \<^verbatim>\<open>total\<close> is their sum, and the failed items are what
  \<^verbatim>\<open>pendingCount()\<close> counts afterwards.
\<close>

theorem drain_partial_failure:
  "drain remote q =
     (map (\<lambda>i. if eligible i then mark_failed i else i)
        (filter (\<lambda>i. \<not> (eligible i \<and> call_succeeds remote i)) (sort_key createdAt q)),
      \<lparr>synced = length (filter (\<lambda>i. eligible i \<and> call_succeeds remote i) q),
       failed = length (filter (\<lambda>i. eligible i \<and> \<not> call_succeeds remote i) q),
       total = length (filter eligible q)\<rparr>)
   \<and> total (snd (drain remote q)) = synced (snd (drain remote q)) + failed (snd (drain remote q))
   \<and> pendingCount_of (fst (drain remote q)) = failed (snd (drain remote q))"
proof -
  have d: "drain remote q =
     (map (\<lambda>i. if eligible i then mark_failed i else i)
        (filter (\<lambda>i. \<not> (eligible i \<and> call_succeeds remote i)) (sort_key createdAt q)),
      \<lparr>synced = length (filter (\<lambda>i. eligible i \<and> call_succeeds remote i) q),
       failed = length (filter (\<lambda>i. eligible i \<and> \<not> call_succeeds remote i) q),
       total = length (filter eligible q)\<rparr>)"
    by (simp only: drain_def drain_items_result length_filter_sort_key)
  have t: "total (snd (drain remote q)) = synced (snd (drain remote q)) + failed (snd (drain remote q))"
    unfolding d using length_filter_split [of eligible q "call_succeeds remote"] by simp
  have p: "pendingCount_of (fst (drain remote q)) = failed (snd (drain remote q))"
    unfolding d pendingCount_of_def
    by (simp only: fst_conv snd_conv drain_summary.select_convs pending_after_drain_items
          length_filter_sort_key)
  from d t p show ?thesis by blast
qed

text \<open>
  Items A, B and C, queued in the order C, A, B, where the call for B fails: A and C are
  removed, B stays with one attempt and status FAILED, and the summary is 2, 1, 3.
\<close>

theorem drain_partial_failure_witness:
  "drain (\<lambda>i. item_id i \<noteq> 2)
     [queue_item_at 3 SUBMIT_SURVEY, queue_item_at 1 CREATE_PERSON, queue_item_at 2 CREATE_HOUSEHOLD]
   = ([\<lparr>item_id = 2, item_type = CREATE_HOUSEHOLD, payload = [], createdAt = 2, attempts = 1,
        status = FAILED\<rparr>],
      \<lparr>synced = 2, failed = 1, total = 3\<rparr>)"
  using drain_partial_failure [of "\<lambda>i. item_id i \<noteq> 2"
      "[queue_item_at 3 SUBMIT_SURVEY, queue_item_at 1 CREATE_PERSON,
        queue_item_at 2 CREATE_HOUSEHOLD]"]
  by (simp add: queue_item_at_def eligible_def call_succeeds_def mark_failed_def)

section \<open>Overlapping synchronizations\<close>

text \<open>
  Started by the effect alone, synchronizations do not overlap: the effect tests
  \<^verbatim>\<open>syncing\<close>, which is then set exactly while a run of \<^verbatim>\<open>syncQueue\<close> is under way.
\<close>

lemma auto_sync_step_guarded:
  assumes "e \<noteq> SyncQueueCalled" "in_flight s + reloading s = (if syncing s then 1 else 0)"
  shows "in_flight (hook_step a s e) + reloading (hook_step a s e)
         = (if syncing (hook_step a s e) then 1 else 0)"
  using assms
  by (cases e)
     (auto simp: autoSyncEffect_def syncQueue_start_def syncQueue_resolved_def
        syncQueue_rejected_def syncQueue_reloaded_def split: if_splits)

lemma auto_sync_run_guarded:
  assumes "SyncQueueCalled \<notin> set evs" "in_flight s + reloading s = (if syncing s then 1 else 0)"
  shows "in_flight (hook_run a s evs) + reloading (hook_run a s evs)
         = (if syncing (hook_run a s evs) then 1 else 0)"
  using assms unfolding hook_run_def
proof (induction evs arbitrary: s)
  case Nil
  then show ?case by simp
next
  case (Cons e evs)
  from Cons.prems have "e \<noteq> SyncQueueCalled" by auto
  with Cons.prems
  have "in_flight (hook_step a s e) + reloading (hook_step a s e)
        = (if syncing (hook_step a s e) then 1 else 0)"
    by (intro auto_sync_step_guarded) simp_all
  with Cons show ?case by simp
qed

lemma auto_sync_at_most_one:
  "SyncQueueCalled \<notin> set evs \<Longrightarrow> in_flight (hook_run a initial_hook evs) \<le> 1"
  using auto_sync_run_guarded [of evs initial_hook a]
  by (simp add: initial_hook_def split: if_splits)


end
